theory Spec2Isabelle
  imports Complex_Main "HOL-Library.Char_ord" "HOL-Library.List_Lexorder" "HOL-Library.Sublist"
    "HOL-Library.Multiset"
begin

section \<open>Numbers of the data frame\<close>

text \<open>
  Every numeric column of the dashboard is a pandas float column. A value is modelled as an
  exact real number or one of the three special values that a division by zero produces in
  pandas and numpy (no exception is raised there): plus or minus infinity, or not-a-number.
  Rounding of the binary representation and the sign of zero are not modelled: finite
  arithmetic is exact.
\<close>

datatype fval = Fin real | PInf | NInf | NaN

fun fadd :: "fval \<Rightarrow> fval \<Rightarrow> fval" where
  "fadd NaN _ = NaN"
| "fadd _ NaN = NaN"
| "fadd (Fin a) (Fin b) = Fin (a + b)"
| "fadd PInf NInf = NaN"
| "fadd NInf PInf = NaN"
| "fadd PInf _ = PInf"
| "fadd _ PInf = PInf"
| "fadd NInf _ = NInf"
| "fadd _ NInf = NInf"

fun fmul :: "fval \<Rightarrow> fval \<Rightarrow> fval" where
  "fmul NaN _ = NaN"
| "fmul _ NaN = NaN"
| "fmul (Fin a) (Fin b) = Fin (a * b)"
| "fmul PInf (Fin b) = (if b = 0 then NaN else if 0 < b then PInf else NInf)"
| "fmul NInf (Fin b) = (if b = 0 then NaN else if 0 < b then NInf else PInf)"
| "fmul (Fin a) PInf = (if a = 0 then NaN else if 0 < a then PInf else NInf)"
| "fmul (Fin a) NInf = (if a = 0 then NaN else if 0 < a then NInf else PInf)"
| "fmul PInf PInf = PInf"
| "fmul NInf NInf = PInf"
| "fmul PInf NInf = NInf"
| "fmul NInf PInf = NInf"

fun fdiv :: "fval \<Rightarrow> fval \<Rightarrow> fval" where
  "fdiv NaN _ = NaN"
| "fdiv _ NaN = NaN"
| "fdiv (Fin a) (Fin b) =
     (if b \<noteq> 0 then Fin (a / b)
      else if 0 < a then PInf else if a < 0 then NInf else NaN)"
| "fdiv (Fin a) _ = Fin 0"
| "fdiv PInf (Fin b) = (if 0 \<le> b then PInf else NInf)"
| "fdiv NInf (Fin b) = (if 0 \<le> b then NInf else PInf)"
| "fdiv _ _ = NaN"

text \<open>Comparisons: every comparison with not-a-number is false.\<close>

fun flt :: "fval \<Rightarrow> fval \<Rightarrow> bool" where
  "flt NaN _ = False"
| "flt _ NaN = False"
| "flt (Fin a) (Fin b) = (a < b)"
| "flt NInf NInf = False"
| "flt NInf _ = True"
| "flt _ NInf = False"
| "flt PInf _ = False"
| "flt _ PInf = True"

definition fgt :: "fval \<Rightarrow> fval \<Rightarrow> bool" where
  "fgt a b = flt b a"

definition isnan :: "fval \<Rightarrow> bool" where
  "isnan v = (v = NaN)"

definition isfinite :: "fval \<Rightarrow> bool" where
  "isfinite v = (case v of Fin _ \<Rightarrow> True | _ \<Rightarrow> False)"

text \<open>Plain left-to-right addition of a column, with nothing skipped.\<close>

definition fsum :: "fval list \<Rightarrow> fval" where
  "fsum vs = foldl fadd (Fin 0) vs"

text \<open>
  The reductions of pandas skip not-a-number entries (\<open>skipna=True\<close>): \<open>mean\<close> of a column
  with no other entry is not-a-number.
\<close>

definition dropna :: "fval list \<Rightarrow> fval list" where
  "dropna vs = filter (\<lambda>v. \<not> isnan v) vs"

definition mean :: "fval list \<Rightarrow> fval" where
  "mean vs =
     (let xs = dropna vs
      in if xs = [] then NaN else fdiv (fsum xs) (Fin (real (length xs))))"

text \<open>
  \<open>std\<close> is the sample standard deviation (one delta degree of freedom) of the entries
  that are not not-a-number: fewer than two of them give not-a-number, and so does an
  infinite entry (the deviation from an infinite mean is undefined).
\<close>

definition finite_vals :: "fval list \<Rightarrow> real list" where
  "finite_vals vs = concat (map (\<lambda>v. case v of Fin x \<Rightarrow> [x] | _ \<Rightarrow> []) vs)"

definition std :: "fval list \<Rightarrow> fval" where
  "std vs =
     (let xs = dropna vs; n = length xs
      in if n < 2 \<or> \<not> list_all isfinite xs then NaN
         else let ys = finite_vals xs; m = sum_list ys / real n
              in Fin (sqrt (sum_list (map (\<lambda>y. (y - m)\<^sup>2) ys) / real (n - 1))))"

text \<open>
  \<open>median\<close> skips not-a-number entries too; of an even number of entries it is the mean of
  the two middle ones.
\<close>

definition fle :: "fval \<Rightarrow> fval \<Rightarrow> bool" where
  "fle a b = (\<not> isnan a \<and> \<not> isnan b \<and> (a = b \<or> flt a b))"

fun insort_fval :: "fval \<Rightarrow> fval list \<Rightarrow> fval list" where
  "insort_fval x [] = [x]"
| "insort_fval x (y # ys) = (if fle x y then x # y # ys else y # insort_fval x ys)"

definition sort_fval :: "fval list \<Rightarrow> fval list" where
  "sort_fval vs = foldr insort_fval vs []"

definition median :: "fval list \<Rightarrow> fval" where
  "median vs =
     (let xs = sort_fval (dropna vs); n = length xs
      in if n = 0 then NaN
         else if odd n then xs ! (n div 2)
         else fdiv (fadd (xs ! (n div 2 - 1)) (xs ! (n div 2))) (Fin 2))"

section \<open>Records and the filter\<close>

text \<open>
  One row of the data set. The date is a point on the time line (the timestamp that
  \<open>pd.to_datetime\<close> yields); the numeric cells of the cleaned workbook are finite.
\<close>

record sale =
  Product_Name :: string
  Division :: string
  Date :: int
  Sales :: real
  Cost :: real
  Units :: real

text \<open>
  The values of the sidebar widgets. \<open>date_range\<close> is the sequence that the date
  widget returns: two dates once a range is selected, fewer while the selection is
  incomplete.
\<close>

record sidebar =
  date_range :: "int list"
  division :: "string list"
  margin_threshold :: real
  product_search :: string

datatype error =
    Index_Error    \<comment> \<open>\<open>date_range[0]\<close> or \<open>date_range[1]\<close> out of range\<close>
  | Pattern_Error  \<comment> \<open>the search text is not a well-formed regular expression\<close>
  | Value_Error    \<comment> \<open>\<open>idxmax\<close> or \<open>idxmin\<close> of an empty column\<close>
  | Size_Error     \<comment> \<open>the scatter plot is given a negative marker size\<close>

text \<open>
  \<open>Series.str.contains(pat, case=False)\<close> treats \<open>pat\<close> as a regular expression (the
  default \<open>regex=True\<close>): the pattern is compiled once, ignoring case, and searched in every
  product name. The regular-expression engine is library code; the filter takes it as a
  parameter: \<open>None\<close> for a pattern the engine rejects, else the search predicate of the
  compiled pattern.
\<close>

type_synonym regex_engine = "string \<Rightarrow> (string \<Rightarrow> bool) option"

definition getitem :: "'a list \<Rightarrow> nat \<Rightarrow> error + 'a" where
  "getitem xs i = (if i < length xs then Inr (xs ! i) else Inl Index_Error)"

definition apply_filters :: "regex_engine \<Rightarrow> sidebar \<Rightarrow> sale list \<Rightarrow> error + sale list" where
  "apply_filters re sb df =
     (case getitem (date_range sb) 0 of Inl e \<Rightarrow> Inl e | Inr d0 \<Rightarrow>
      (case getitem (date_range sb) 1 of Inl e \<Rightarrow> Inl e | Inr d1 \<Rightarrow>
        let by_date = filter (\<lambda>r. d0 \<le> Date r \<and> Date r \<le> d1) df;
            by_division = filter (\<lambda>r. Division r \<in> set (division sb)) by_date
        in if product_search sb \<noteq> []
           then (case re (product_search sb) of
                   None \<Rightarrow> Inl Pattern_Error
                 | Some found \<Rightarrow> Inr (filter (\<lambda>r. found (Product_Name r)) by_division))
           else Inr by_division))"

text \<open>
  An engine for the patterns made of ordinary characters and the dot, on which it agrees
  with the library: a dot matches any character but a newline, any other character matches
  itself in either case, and the pattern may match anywhere in the name. A pattern with any
  other special character is beyond it and is refused here, whatever the library does
  with it.
\<close>

definition lower :: "char \<Rightarrow> char" where
  "lower c =
     (if CHR ''A'' \<le> c \<and> c \<le> CHR ''Z'' then char_of (of_char c + (32::nat)) else c)"

definition special :: "char \<Rightarrow> bool" where
  "special c = (c \<in> set (CHR 0x5C # ''^$*+?{}[]()|''))"

fun match_here :: "string \<Rightarrow> string \<Rightarrow> bool" where
  "match_here [] s = True"
| "match_here (p # ps) [] = False"
| "match_here (p # ps) (c # cs) =
     ((if p = CHR ''.'' then c \<noteq> CHR 0x0A else lower p = lower c) \<and> match_here ps cs)"

fun search :: "string \<Rightarrow> string \<Rightarrow> bool" where
  "search p [] = match_here p []"
| "search p (c # cs) = (match_here p (c # cs) \<or> search p cs)"

definition dot_engine :: regex_engine where
  "dot_engine p = (if list_ex special p then None else Some (search p))"

text \<open>
  The predicate of the specification's words, a case-insensitive substring test:
  \<open>pat.lower() in name.lower()\<close>.
\<close>

fun starts_with :: "string \<Rightarrow> string \<Rightarrow> bool" where
  "starts_with [] s = True"
| "starts_with (p # ps) [] = False"
| "starts_with (p # ps) (c # cs) = (p = c \<and> starts_with ps cs)"

fun contains :: "string \<Rightarrow> string \<Rightarrow> bool" where
  "contains p [] = starts_with p []"
| "contains p (c # cs) = (starts_with p (c # cs) \<or> contains p cs)"

definition spec_substring_match :: "string \<Rightarrow> string \<Rightarrow> bool" where
  "spec_substring_match p s = contains (map lower p) (map lower s)"

section \<open>KPI calculations\<close>

datatype risk = High_Risk | Safe

text \<open>The filtered frame after the derived columns have been added to it.\<close>

record derived = sale +
  Gross_Profit :: real
  Gross_Margin :: fval
  Profit_per_Unit :: fval
  Revenue_Contribution :: fval
  Profit_Contribution :: fval
  Risk_Level :: risk

definition gross_profit :: "sale \<Rightarrow> real" where
  "gross_profit r = Sales r - Cost r"

definition gross_margin :: "sale \<Rightarrow> fval" where
  "gross_margin r = fmul (fdiv (Fin (gross_profit r)) (Fin (Sales r))) (Fin 100)"

definition profit_per_unit :: "sale \<Rightarrow> fval" where
  "profit_per_unit r = fdiv (Fin (gross_profit r)) (Fin (Units r))"

definition total_sales :: "sale list \<Rightarrow> real" where
  "total_sales rs = sum_list (map Sales rs)"

definition total_profit :: "sale list \<Rightarrow> real" where
  "total_profit rs = sum_list (map gross_profit rs)"

definition risk_level :: "real \<Rightarrow> fval \<Rightarrow> risk" where
  "risk_level threshold x = (if flt x (Fin threshold) then High_Risk else Safe)"

definition derive_row :: "real \<Rightarrow> real \<Rightarrow> real \<Rightarrow> sale \<Rightarrow> derived" where
  "derive_row threshold ts tp r =
     \<lparr>Product_Name = Product_Name r, Division = Division r, Date = Date r,
      Sales = Sales r, Cost = Cost r, Units = Units r,
      Gross_Profit = gross_profit r,
      Gross_Margin = gross_margin r,
      Profit_per_Unit = profit_per_unit r,
      Revenue_Contribution = fmul (fdiv (Fin (Sales r)) (Fin ts)) (Fin 100),
      Profit_Contribution = fmul (fdiv (Fin (gross_profit r)) (Fin tp)) (Fin 100),
      Risk_Level = risk_level threshold (gross_margin r)\<rparr>"

definition kpi_calculations :: "real \<Rightarrow> sale list \<Rightarrow> derived list" where
  "kpi_calculations threshold rs =
     map (derive_row threshold (total_sales rs) (total_profit rs)) rs"

section \<open>Grouping\<close>

text \<open>
  \<open>groupby\<close> yields one group per distinct key, the keys in ascending order, each group
  holding its rows in their order in the frame.
\<close>

definition group_keys :: "('r \<Rightarrow> string) \<Rightarrow> 'r list \<Rightarrow> string list" where
  "group_keys key rs = sort (remdups (map key rs))"

definition groupby :: "('r \<Rightarrow> string) \<Rightarrow> 'r list \<Rightarrow> (string \<times> 'r list) list" where
  "groupby key rs = map (\<lambda>k. (k, filter (\<lambda>r. key r = k) rs)) (group_keys key rs)"

definition group_sum :: "('r \<Rightarrow> string) \<Rightarrow> ('r \<Rightarrow> real) \<Rightarrow> 'r list \<Rightarrow> (string \<times> real) list" where
  "group_sum key col rs = map (\<lambda>(k, g). (k, sum_list (map col g))) (groupby key rs)"

definition group_mean :: "('r \<Rightarrow> string) \<Rightarrow> ('r \<Rightarrow> fval) \<Rightarrow> 'r list \<Rightarrow> (string \<times> fval) list" where
  "group_mean key col rs = map (\<lambda>(k, g). (k, mean (map col g))) (groupby key rs)"

definition group_std :: "('r \<Rightarrow> string) \<Rightarrow> ('r \<Rightarrow> fval) \<Rightarrow> 'r list \<Rightarrow> (string \<times> fval) list" where
  "group_std key col rs = map (\<lambda>(k, g). (k, std (map col g))) (groupby key rs)"

text \<open>
  \<open>idxmax\<close> and \<open>idxmin\<close> answer the label of the first extreme entry and raise on an
  empty column. \<open>idxmin\<close> skips not-a-number entries; where nothing else is left it answers
  no label (\<open>None\<close>), as pandas does up to version 2.
\<close>

fun idxmax :: "(string \<times> real) list \<Rightarrow> error + string" where
  "idxmax [] = Inl Value_Error"
| "idxmax (x # xs) =
     Inr (fst (foldl (\<lambda>best y. if snd best < snd y then y else best) x xs))"

definition idxmin :: "(string \<times> fval) list \<Rightarrow> error + string option" where
  "idxmin xs =
     (if xs = [] then Inl Value_Error
      else case filter (\<lambda>y. \<not> isnan (snd y)) xs of
             [] \<Rightarrow> Inr None
           | y # ys \<Rightarrow>
               Inr (Some (fst (foldl (\<lambda>best z. if flt (snd z) (snd best) then z else best) y ys))))"

text \<open>
  \<open>sort_values(ascending=False)\<close>: the entries by descending value. Entries of equal value
  keep their order here; the order that pandas gives them is not used by anything below.
\<close>

definition sort_values_desc :: "(string \<times> real) list \<Rightarrow> (string \<times> real) list" where
  "sort_values_desc xs = sort_key (\<lambda>x. - snd x) xs"

section \<open>Automated insights\<close>

text \<open>
  \<open>int(n * 0.2)\<close> truncates the product to an integer. For every length below \<open>2^50\<close> the
  binary product truncates to the same integer as the exact one, which is what is written
  here.
\<close>

definition int_of_fifth :: "nat \<Rightarrow> nat" where
  "int_of_fifth n = nat \<lfloor>real n * 0.2\<rfloor>"

definition top_20_count :: "nat \<Rightarrow> nat" where
  "top_20_count n = max 1 (int_of_fifth n)"

definition profit_summary :: "derived list \<Rightarrow> (string \<times> real) list" where
  "profit_summary fdf = sort_values_desc (group_sum Product_Name Gross_Profit fdf)"

definition dependency_ratio :: "derived list \<Rightarrow> fval" where
  "dependency_ratio fdf =
     (let ps = map snd (profit_summary fdf)
      in fmul (fdiv (Fin (sum_list (take (top_20_count (length ps)) ps))) (Fin (sum_list ps)))
           (Fin 100))"

definition high_risk_count :: "derived list \<Rightarrow> nat" where
  "high_risk_count fdf =
     length (remdups (map Product_Name (filter (\<lambda>r. Risk_Level r = High_Risk) fdf)))"

definition avg_volatility :: "derived list \<Rightarrow> fval" where
  "avg_volatility fdf = mean (map snd (group_std Product_Name Gross_Margin fdf))"

record insight_set =
  Best_Division :: string
  Worst_Margin_Product :: "string option"
  High_Risk_Products :: nat
  Dependency_Ratio :: fval
  Avg_Volatility :: fval
  Concentration_Warning :: bool
  Instability_Warning :: bool

datatype insights = Insight_Text insight_set | No_Data_Warning

definition automated_insights :: "derived list \<Rightarrow> error + insights" where
  "automated_insights fdf =
     (if fdf \<noteq> [] then
        (case idxmax (group_sum Division Gross_Profit fdf) of Inl e \<Rightarrow> Inl e | Inr bd \<Rightarrow>
         (case idxmin (group_mean Product_Name Gross_Margin fdf) of Inl e \<Rightarrow> Inl e | Inr wp \<Rightarrow>
            Inr (Insight_Text
              \<lparr>Best_Division = bd,
               Worst_Margin_Product = wp,
               High_Risk_Products = high_risk_count fdf,
               Dependency_Ratio = dependency_ratio fdf,
               Avg_Volatility = avg_volatility fdf,
               Concentration_Warning = fgt (dependency_ratio fdf) (Fin 70),
               Instability_Warning = fgt (avg_volatility fdf) (std (map Gross_Margin fdf))\<rparr>)))
      else Inr No_Data_Warning)"

section \<open>The tabs\<close>

datatype volatility_risk = High_Volatility | Stable

record product_row =
  Product :: string
  Product_Sales :: real
  Product_Profit :: real
  Product_Margin :: fval
  Product_Contribution :: fval
  Margin_Volatility :: fval
  Volatility_Risk :: volatility_risk

definition volatility :: "derived list \<Rightarrow> (string \<times> fval) list" where
  "volatility fdf = group_std Product_Name Gross_Margin fdf"

text \<open>The left merge on the product name: a product without a row on the right gets
  not-a-number.\<close>

definition merged_volatility :: "derived list \<Rightarrow> string \<Rightarrow> fval" where
  "merged_volatility fdf k = (case map_of (volatility fdf) k of None \<Rightarrow> NaN | Some v \<Rightarrow> v)"

definition median_vol :: "derived list \<Rightarrow> fval" where
  "median_vol fdf =
     median (map (merged_volatility fdf) (group_keys Product_Name fdf))"

definition volatility_label :: "fval \<Rightarrow> fval \<Rightarrow> volatility_risk" where
  "volatility_label m x = (if fgt x m then High_Volatility else Stable)"

definition product_summary :: "derived list \<Rightarrow> product_row list" where
  "product_summary fdf =
     (let total = sum_list (map snd (group_sum Product_Name Gross_Profit fdf))
      in map (\<lambda>(k, g).
           \<lparr>Product = k,
            Product_Sales = sum_list (map Sales g),
            Product_Profit = sum_list (map Gross_Profit g),
            Product_Margin = mean (map Gross_Margin g),
            Product_Contribution =
              fmul (fdiv (Fin (sum_list (map Gross_Profit g))) (Fin total)) (Fin 100),
            Margin_Volatility = merged_volatility fdf k,
            Volatility_Risk = volatility_label (median_vol fdf) (merged_volatility fdf k)\<rparr>)
         (groupby Product_Name fdf))"

record division_row =
  Division_Key :: string
  Division_Sales :: real
  Division_Profit :: real
  Division_Margin :: fval

definition division_summary :: "derived list \<Rightarrow> division_row list" where
  "division_summary fdf =
     map (\<lambda>(k, g).
        \<lparr>Division_Key = k,
         Division_Sales = sum_list (map Sales g),
         Division_Profit = sum_list (map Gross_Profit g),
         Division_Margin = mean (map Gross_Margin g)\<rparr>)
       (groupby Division fdf)"

text \<open>
  The third tab draws one marker per row, sized by the Gross Profit of the row. The plotting
  library refuses a negative size with an error, and the script stops there, before the
  fourth tab. Nothing else of the plot is modelled.
\<close>

definition cost_diagnostics :: "derived list \<Rightarrow> error + unit" where
  "cost_diagnostics fdf =
     (if list_ex (\<lambda>r. Gross_Profit r < 0) fdf then Inl Size_Error else Inr ())"

record pareto_entry =
  Pareto_Product :: string
  Pareto_Profit :: real
  Cumulative_Profit :: real
  Cumulative_Pct :: fval

fun cumsum_from :: "real \<Rightarrow> real list \<Rightarrow> real list" where
  "cumsum_from acc [] = []"
| "cumsum_from acc (x # xs) = (acc + x) # cumsum_from (acc + x) xs"

definition cumsum :: "real list \<Rightarrow> real list" where
  "cumsum xs = cumsum_from 0 xs"

definition pareto :: "derived list \<Rightarrow> pareto_entry list" where
  "pareto fdf =
     (let ps = profit_summary fdf; total = sum_list (map snd ps)
      in map (\<lambda>((k, v), c).
           \<lparr>Pareto_Product = k, Pareto_Profit = v, Cumulative_Profit = c,
            Cumulative_Pct = fmul (fdiv (Fin c) (Fin total)) (Fin 100)\<rparr>)
         (zip ps (cumsum (map snd ps))))"

text \<open>The count of the fourth tab is the truncated fifth alone, without the lower bound
  of one that the insights put on theirs.\<close>

definition top_20_count_tab4 :: "nat \<Rightarrow> nat" where
  "top_20_count_tab4 n = int_of_fifth n"

definition top_20_profit_share :: "derived list \<Rightarrow> fval" where
  "top_20_profit_share fdf =
     (let ps = map Pareto_Profit (pareto fdf)
      in fmul (fdiv (Fin (sum_list (take (top_20_count_tab4 (length ps)) ps)))
                    (Fin (sum_list ps)))
           (Fin 100))"

section \<open>The whole script\<close>

record dashboard =
  Filtered :: "derived list"
  Total_Sales :: real
  Total_Profit :: real
  Average_Margin :: fval
  Insights :: insights
  Tab1 :: "product_row list"
  Tab2 :: "division_row list"
  Tab4 :: "pareto_entry list"
  Tab4_Share :: fval

definition run :: "regex_engine \<Rightarrow> sidebar \<Rightarrow> sale list \<Rightarrow> error + dashboard" where
  "run re sb df =
     (case apply_filters re sb df of Inl e \<Rightarrow> Inl e | Inr rs \<Rightarrow>
        let fdf = kpi_calculations (margin_threshold sb) rs
        in (case automated_insights fdf of Inl e \<Rightarrow> Inl e | Inr ins \<Rightarrow>
            (case cost_diagnostics fdf of Inl e \<Rightarrow> Inl e | Inr _ \<Rightarrow>
               Inr \<lparr>Filtered = fdf,
                    Total_Sales = total_sales rs,
                    Total_Profit = total_profit rs,
                    Average_Margin = mean (map Gross_Margin fdf),
                    Insights = ins,
                    Tab1 = product_summary fdf,
                    Tab2 = division_summary fdf,
                    Tab4 = pareto fdf,
                    Tab4_Share = top_20_profit_share fdf\<rparr>)))"

section \<open>Example inputs\<close>

text \<open>The three records of the specification's worked example, on three successive days,
  and a sidebar that filters nothing out.\<close>

definition record_a :: sale where
  "record_a = \<lparr>Product_Name = ''ProductA'', Division = ''DivX'', Date = 1,
                Sales = 100, Cost = 60, Units = 10\<rparr>"

definition record_b :: sale where
  "record_b = \<lparr>Product_Name = ''ProductB'', Division = ''DivX'', Date = 2,
                Sales = 200, Cost = 50, Units = 20\<rparr>"

definition record_c :: sale where
  "record_c = \<lparr>Product_Name = ''ProductA'', Division = ''DivY'', Date = 3,
                Sales = 50, Cost = 50, Units = 5\<rparr>"

definition example_frame :: "sale list" where
  "example_frame = [record_a, record_b, record_c]"

definition no_filters :: sidebar where
  "no_filters = \<lparr>date_range = [1, 3], division = [''DivX'', ''DivY''],
                  margin_threshold = 10, product_search = []\<rparr>"

text \<open>A record that sold nothing and cost nothing.\<close>

definition zero_sale :: sale where
  "zero_sale = \<lparr>Product_Name = ''Sample'', Division = ''DivX'', Date = 2,
                 Sales = 0, Cost = 0, Units = 1\<rparr>"

text \<open>Sidebars: an end date before the start date; no division selected; a search text
  that is a single dot.\<close>

definition reversed_range :: sidebar where
  "reversed_range = \<lparr>date_range = [3, 1], division = [''DivX'', ''DivY''],
                      margin_threshold = 10, product_search = []\<rparr>"

definition no_division :: sidebar where
  "no_division = \<lparr>date_range = [1, 3], division = [],
                   margin_threshold = 10, product_search = []\<rparr>"

definition dot_search :: sidebar where
  "dot_search = \<lparr>date_range = [1, 3], division = [''DivX'', ''DivY''],
                  margin_threshold = 10, product_search = ''.''\<rparr>"

text \<open>Six products with one record each, of Gross Profit 6, 5, 4, 3, 2 and 1.\<close>

definition product_sale :: "string \<Rightarrow> real \<Rightarrow> sale" where
  "product_sale name cost = \<lparr>Product_Name = name, Division = ''DivX'', Date = 1,
                              Sales = 10, Cost = cost, Units = 1\<rparr>"

definition six_products :: "derived list" where
  "six_products = kpi_calculations 10
     [product_sale ''P1'' 4, product_sale ''P2'' 5, product_sale ''P3'' 6,
      product_sale ''P4'' 7, product_sale ''P5'' 8, product_sale ''P6'' 9]"

section \<open>The specification's top-fraction share\<close>

text \<open>
  The share in the words of the specification, to compare the script with: of the
  descending ranking, the first \<open>ceil(f * N)\<close> entries, their combined Gross Profit as a
  percentage of the total.
\<close>

definition spec_top_fraction_share :: "real \<Rightarrow> derived list \<Rightarrow> fval" where
  "spec_top_fraction_share f fdf =
     (let ps = map snd (profit_summary fdf); k = nat \<lceil>f * real (length ps)\<rceil>
      in fmul (fdiv (Fin (sum_list (take k ps))) (Fin (sum_list ps))) (Fin 100))"

text \<open>The six records themselves; two products, one with a profit of 10 and one with a
  loss of 5; and two products that break even.\<close>

definition six_sales :: "sale list" where
  "six_sales =
     [product_sale ''P1'' 4, product_sale ''P2'' 5, product_sale ''P3'' 6,
      product_sale ''P4'' 7, product_sale ''P5'' 8, product_sale ''P6'' 9]"

definition loss_sales :: "sale list" where
  "loss_sales = [product_sale ''P1'' 0, product_sale ''P2'' 15]"

definition breakeven_sales :: "sale list" where
  "breakeven_sales = [product_sale ''P1'' 10, product_sale ''P2'' 10]"

section \<open>Non-decreasing columns\<close>

text \<open>A column is non-decreasing when every entry is at most every later one; no
  comparison with not-a-number holds.\<close>

definition non_decreasing :: "fval list \<Rightarrow> bool" where
  "non_decreasing vs = sorted_wrt fle vs"

text \<open>The worked example after the KPI calculations, under the threshold of 10%.\<close>

definition example_derived :: "derived list" where
  "example_derived = kpi_calculations 10 example_frame"

section \<open>Arithmetic of the special values\<close>

lemma fsum_Fin_from: "foldl fadd (Fin a) (map Fin xs) = Fin (a + sum_list xs)"
  by (induction xs arbitrary: a) (simp_all add: add.assoc)

lemma fsum_Fin: "fsum (map Fin xs) = Fin (sum_list xs)"
  by (simp add: fsum_def fsum_Fin_from)

lemma percentage_Fin: "t \<noteq> 0 \<Longrightarrow> fmul (fdiv (Fin x) (Fin t)) (Fin 100) = Fin (x / t * 100)"
  by simp

lemma sum_list_percentage:
  "t \<noteq> 0 \<Longrightarrow> sum_list (map (\<lambda>r. f r / t * 100) rs) = sum_list (map f rs) / t * (100::real)"
  by (induction rs) (simp_all add: field_simps)

section \<open>Contribution percentages\<close>

lemma revenue_column:
  "total_sales rs \<noteq> 0 \<Longrightarrow>
   map Revenue_Contribution (kpi_calculations thr rs) =
   map Fin (map (\<lambda>r. Sales r / total_sales rs * 100) rs)"
  by (simp add: kpi_calculations_def derive_row_def)

lemma profit_column:
  "total_profit rs \<noteq> 0 \<Longrightarrow>
   map Profit_Contribution (kpi_calculations thr rs) =
   map Fin (map (\<lambda>r. gross_profit r / total_profit rs * 100) rs)"
  by (simp add: kpi_calculations_def derive_row_def)

text \<open>
  Claim C3, as amended. Whenever Total Sales is nonzero, the Revenue Contribution
  percentages of the derived records add up to 100; whenever Total Profit is nonzero, the
  Profit Contribution percentages add up to 100. (The additions are exact here; the
  rounding of the binary representation is not modelled.)
\<close>

theorem contributions_sum_to_100:
  "(total_sales rs \<noteq> 0 \<longrightarrow>
      fsum (map Revenue_Contribution (kpi_calculations thr rs)) = Fin 100) \<and>
   (total_profit rs \<noteq> 0 \<longrightarrow>
      fsum (map Profit_Contribution (kpi_calculations thr rs)) = Fin 100)"
proof (intro conjI impI)
  assume ts: "total_sales rs \<noteq> 0"
  have "sum_list (map (\<lambda>r. Sales r / total_sales rs * 100) rs) = 100"
    using ts sum_list_percentage [of "total_sales rs" Sales rs] by (simp add: total_sales_def)
  then show "fsum (map Revenue_Contribution (kpi_calculations thr rs)) = Fin 100"
    by (simp only: revenue_column [OF ts] fsum_Fin)
next
  assume tp: "total_profit rs \<noteq> 0"
  have "sum_list (map (\<lambda>r. gross_profit r / total_profit rs * 100) rs) = 100"
    using tp sum_list_percentage [of "total_profit rs" gross_profit rs]
    by (simp add: total_profit_def)
  then show "fsum (map Profit_Contribution (kpi_calculations thr rs)) = Fin 100"
    by (simp only: profit_column [OF tp] fsum_Fin)
qed

lemma example_totals:
  "total_sales example_frame = 350" "total_profit example_frame = 190"
  by (simp_all add: total_sales_def total_profit_def gross_profit_def example_frame_def
        record_a_def record_b_def record_c_def)

theorem contributions_sum_to_100_witness:
  "total_sales example_frame \<noteq> 0 \<and> total_profit example_frame \<noteq> 0 \<and>
   fsum (map Revenue_Contribution (kpi_calculations 10 example_frame)) = Fin 100 \<and>
   fsum (map Profit_Contribution (kpi_calculations 10 example_frame)) = Fin 100"
  using contributions_sum_to_100 [of example_frame 10] by (simp add: example_totals)

text \<open>
  The claim as the specification words it fails on a non-empty set whose sales add up to
  zero: every Revenue Contribution is then zero divided by zero, and the sum is
  not-a-number.
\<close>

theorem contributions_zero_total_counterexample:
  "kpi_calculations 10 [zero_sale] \<noteq> [] \<and>
   fsum (map Revenue_Contribution (kpi_calculations 10 [zero_sale])) \<noteq> Fin 100"
  by (simp add: kpi_calculations_def derive_row_def total_sales_def zero_sale_def fsum_def)

section \<open>Undefined margins\<close>

lemma gross_margin_undefined: "Sales r = 0 \<Longrightarrow> Cost r = 0 \<Longrightarrow> gross_margin r = NaN"
  by (simp add: gross_margin_def gross_profit_def)

text \<open>
  Claim C10. A record with Sales = 0 and Cost = 0 gets the undefined Gross Margin
  (zero divided by zero), and its Risk Level is "Safe" under every margin threshold, since
  not-a-number is below nothing: the record is not among the high-risk ones.
\<close>

theorem undefined_margin_is_safe:
  assumes "i < length rs" and "Sales (rs ! i) = 0" and "Cost (rs ! i) = 0"
  shows "Gross_Margin (kpi_calculations thr rs ! i) = NaN \<and>
         Risk_Level (kpi_calculations thr rs ! i) = Safe \<and>
         kpi_calculations thr rs ! i
           \<notin> set (filter (\<lambda>r. Risk_Level r = High_Risk) (kpi_calculations thr rs))"
  using assms by (simp add: kpi_calculations_def derive_row_def gross_margin_undefined risk_level_def)

theorem undefined_margin_is_safe_witness:
  "(1::nat) < length [record_a, zero_sale] \<and>
   Sales ([record_a, zero_sale] ! 1) = 0 \<and> Cost ([record_a, zero_sale] ! 1) = 0 \<and>
   Gross_Margin (kpi_calculations 100 [record_a, zero_sale] ! 1) = NaN \<and>
   Risk_Level (kpi_calculations 100 [record_a, zero_sale] ! 1) = Safe"
  using undefined_margin_is_safe [of 1 "[record_a, zero_sale]" 100]
  by (simp add: zero_sale_def)

section \<open>Sums over groups\<close>

lemma sum_list_pick:
  fixes v :: real
  assumes "distinct ks" and "a \<in> set ks"
  shows "sum_list (map (\<lambda>k. if a = k then v else 0) ks) = v"
  using assms by (simp add: sum_list_distinct_conv_sum_set)

lemma sum_over_groups:
  fixes f :: "'r \<Rightarrow> real"
  assumes "distinct ks" and "key ` set rs \<subseteq> set ks"
  shows "sum_list (map (\<lambda>k. sum_list (map f (filter (\<lambda>r. key r = k) rs))) ks) =
         sum_list (map f rs)"
  using assms(2)
proof (induction rs)
  case Nil
  then show ?case by simp
next
  case (Cons r rs)
  have split: "(\<lambda>k. sum_list (map f (filter (\<lambda>x. key x = k) (r # rs)))) =
        (\<lambda>k. (if key r = k then f r else 0) + sum_list (map f (filter (\<lambda>x. key x = k) rs)))"
    by (rule ext) simp
  have "key r \<in> set ks" using Cons.prems by simp
  then have "sum_list (map (\<lambda>k. if key r = k then f r else 0) ks) = f r"
    using assms(1) by (rule sum_list_pick [rotated])
  moreover have "sum_list (map (\<lambda>k. sum_list (map f (filter (\<lambda>x. key x = k) rs))) ks) =
      sum_list (map f rs)"
    using Cons by simp
  ultimately show ?case
    by (simp only: split sum_list_addf list.map sum_list.Cons)
qed

lemma group_keys_distinct: "distinct (group_keys key rs)"
  by (simp add: group_keys_def)

lemma group_keys_set: "set (group_keys key rs) = key ` set rs"
  by (simp add: group_keys_def)

lemma group_sum_total:
  fixes col :: "'r \<Rightarrow> real"
  shows "sum_list (map snd (group_sum key col rs)) = sum_list (map col rs)"
proof -
  have "map snd (group_sum key col rs) =
        map (\<lambda>k. sum_list (map col (filter (\<lambda>r. key r = k) rs))) (group_keys key rs)"
    by (simp add: group_sum_def groupby_def comp_def)
  then show ?thesis
    by (simp add: sum_over_groups group_keys_distinct group_keys_set)
qed

lemma product_summary_sales:
  "map Product_Sales (product_summary fdf) = map snd (group_sum Product_Name Sales fdf)"
  by (simp add: product_summary_def group_sum_def comp_def case_prod_unfold Let_def)

lemma product_summary_profit:
  "map Product_Profit (product_summary fdf) = map snd (group_sum Product_Name Gross_Profit fdf)"
  by (simp add: product_summary_def group_sum_def comp_def case_prod_unfold Let_def)

lemma division_summary_sales:
  "map Division_Sales (division_summary fdf) = map snd (group_sum Division Sales fdf)"
  by (simp add: division_summary_def group_sum_def comp_def case_prod_unfold)

lemma division_summary_profit:
  "map Division_Profit (division_summary fdf) = map snd (group_sum Division Gross_Profit fdf)"
  by (simp add: division_summary_def group_sum_def comp_def case_prod_unfold)

lemma kpi_sales: "map Sales (kpi_calculations thr rs) = map Sales rs"
  by (simp add: kpi_calculations_def derive_row_def)

lemma kpi_profit: "map Gross_Profit (kpi_calculations thr rs) = map gross_profit rs"
  by (simp add: kpi_calculations_def derive_row_def)

text \<open>
  Claim C5. For each of the two grouping keys, Product Name (the summary of the first tab)
  and Division (the summary of the second), the per-group Sales totals of all rows add up
  to the sum of Sales over the whole filtered set, and the per-group Gross Profit totals to
  the sum of Gross Profit over it.
\<close>

theorem group_sums_equal_ungrouped_sums:
  "sum_list (map Product_Sales (product_summary fdf)) = sum_list (map Sales fdf) \<and>
   sum_list (map Product_Profit (product_summary fdf)) = sum_list (map Gross_Profit fdf) \<and>
   sum_list (map Division_Sales (division_summary fdf)) = sum_list (map Sales fdf) \<and>
   sum_list (map Division_Profit (division_summary fdf)) = sum_list (map Gross_Profit fdf)"
  by (simp only: product_summary_sales product_summary_profit division_summary_sales
        division_summary_profit group_sum_total)

theorem group_sums_equal_ungrouped_sums_witness:
  "sum_list (map Product_Sales (product_summary (kpi_calculations 10 example_frame))) = 350 \<and>
   sum_list (map Product_Profit (product_summary (kpi_calculations 10 example_frame))) = 190 \<and>
   sum_list (map Division_Sales (division_summary (kpi_calculations 10 example_frame))) = 350 \<and>
   sum_list (map Division_Profit (division_summary (kpi_calculations 10 example_frame))) = 190"
  using group_sums_equal_ungrouped_sums [of "kpi_calculations 10 example_frame"] example_totals
  by (simp add: kpi_sales kpi_profit total_sales_def total_profit_def)

section \<open>The empty filtered set\<close>

lemma kpi_empty: "kpi_calculations thr [] = []"
  by (simp add: kpi_calculations_def)

lemma run_on_empty:
  assumes "apply_filters re sb df = Inr []"
  shows "run re sb df =
    Inr \<lparr>Filtered = [], Total_Sales = 0, Total_Profit = 0, Average_Margin = NaN,
         Insights = No_Data_Warning, Tab1 = [], Tab2 = [], Tab4 = [], Tab4_Share = NaN\<rparr>"
proof -
  have "automated_insights [] = Inr No_Data_Warning"
    by (simp add: automated_insights_def)
  moreover have "product_summary [] = []"
    by (simp add: product_summary_def groupby_def group_keys_def)
  moreover have "division_summary [] = []"
    by (simp add: division_summary_def groupby_def group_keys_def)
  moreover have "profit_summary [] = []"
    by (simp add: profit_summary_def sort_values_desc_def group_sum_def groupby_def
          group_keys_def)
  then have "pareto [] = []"
    by (simp add: pareto_def)
  moreover from this have "top_20_profit_share [] = NaN"
    by (simp add: top_20_profit_share_def)
  moreover have "mean [] = NaN"
    by (simp add: mean_def dropna_def)
  moreover have "cost_diagnostics [] = Inr ()"
    by (simp add: cost_diagnostics_def)
  ultimately show ?thesis
    using assms by (simp add: run_def kpi_empty total_sales_def total_profit_def)
qed

text \<open>
  Claim C7. When the filters leave no record, the script runs to its end without an error
  and the insights are the distinct "no data" state, which carries none of the insight
  values (best division, worst-margin product, high-risk count, top-20% share, average
  volatility). The divisions by a zero total do not raise: the KPI totals are 0, the
  summaries and the Pareto table are empty, and the average margin and the profit share of
  the fourth tab are not-a-number.
\<close>

theorem empty_filtered_set_is_no_data:
  assumes "apply_filters re sb df = Inr []"
  shows "\<exists>d. run re sb df = Inr d \<and> Insights d = No_Data_Warning \<and> Filtered d = [] \<and>
             Total_Sales d = 0 \<and> Total_Profit d = 0 \<and> Average_Margin d = NaN \<and>
             Tab1 d = [] \<and> Tab2 d = [] \<and> Tab4 d = [] \<and> Tab4_Share d = NaN"
  using run_on_empty [OF assms] by simp

theorem empty_filtered_set_is_no_data_witness:
  "apply_filters dot_engine no_division example_frame = Inr [] \<and>
   (\<exists>d. run dot_engine no_division example_frame = Inr d \<and> Insights d = No_Data_Warning \<and>
        Filtered d = [] \<and> Total_Sales d = 0 \<and> Total_Profit d = 0 \<and> Average_Margin d = NaN \<and>
        Tab1 d = [] \<and> Tab2 d = [] \<and> Tab4 d = [] \<and> Tab4_Share d = NaN)"
proof -
  have h: "apply_filters dot_engine no_division example_frame = Inr []"
    by (simp add: apply_filters_def getitem_def no_division_def)
  show ?thesis
    using h empty_filtered_set_is_no_data [OF h] by simp
qed

section \<open>A reversed date range\<close>

lemma reversed_range_empty:
  assumes "(d1::int) < d0"
  shows "filter (\<lambda>r. d0 \<le> Date r \<and> Date r \<le> d1) df = []"
  using assms by (induction df) auto

text \<open>
  Claim C2, as amended. For a date range whose start is after its end the filter signals no
  range error: no record lies in the range, so (for an empty search text, or one that the
  regular-expression engine accepts) the filter returns the empty record set, the
  derivation runs on it, and the script ends in the "no data" state.
\<close>

theorem reversed_range_returns_empty:
  assumes "date_range sb = [d0, d1]" and "d1 < d0"
      and "product_search sb = [] \<or> re (product_search sb) \<noteq> None"
  shows "apply_filters re sb df = Inr [] \<and>
         (\<exists>d. run re sb df = Inr d \<and> Filtered d = [] \<and> Insights d = No_Data_Warning)"
proof -
  have "apply_filters re sb df = Inr []"
    using assms(1,3) reversed_range_empty [OF assms(2), of df]
    by (auto simp add: apply_filters_def getitem_def)
  then show ?thesis
    using run_on_empty by fastforce
qed

theorem reversed_range_returns_empty_witness:
  "date_range reversed_range = [3, 1] \<and> (1::int) < 3 \<and> product_search reversed_range = [] \<and>
   apply_filters dot_engine reversed_range example_frame = Inr [] \<and>
   (\<exists>d. run dot_engine reversed_range example_frame = Inr d \<and> Filtered d = [] \<and>
        Insights d = No_Data_Warning)"
  using reversed_range_returns_empty [of reversed_range 3 1 dot_engine example_frame]
  by (simp add: reversed_range_def)

text \<open>
  The claim as the specification words it fails: with the start date 3 and the end date 1
  the filter answers the empty record set, not an error.
\<close>

theorem reversed_range_counterexample:
  "date_range reversed_range = [3, 1] \<and>
   apply_filters dot_engine reversed_range example_frame = Inr []"
  by (simp add: apply_filters_def getitem_def reversed_range_def example_frame_def
        record_a_def record_b_def record_c_def)

section \<open>The filter\<close>

text \<open>On a search text without a dot the example engine is the case-insensitive
  substring test.\<close>

lemma match_here_plain:
  "CHR ''.'' \<notin> set p \<Longrightarrow> match_here p s = starts_with (map lower p) (map lower s)"
  by (induction p s rule: match_here.induct) auto

lemma search_plain:
  "CHR ''.'' \<notin> set p \<Longrightarrow> search p s = spec_substring_match p s"
  by (induction s) (simp_all add: spec_substring_match_def match_here_plain)

lemma dot_engine_plain:
  assumes "CHR ''.'' \<notin> set p" and "\<not> list_ex special p"
  shows "dot_engine p = Some (spec_substring_match p)"
  using assms by (auto simp add: dot_engine_def search_plain)

text \<open>
  Claim C6, as amended. Whatever the regular-expression engine, when the filter returns a
  record set, every record of it lies in the date range (both ends included), has its
  Division among the selected ones and, for a non-empty search text, has a product name in
  which the search text, compiled as a regular expression that ignores case, is found (a
  regular-expression search, not a substring test); the output is a subsequence of the
  input; and filtering the output again with the same sidebar returns it unchanged.
\<close>

theorem filter_sound_and_idempotent:
  assumes "apply_filters re sb df = Inr out"
  shows "2 \<le> length (date_range sb) \<and>
         (\<forall>r \<in> set out.
            date_range sb ! 0 \<le> Date r \<and> Date r \<le> date_range sb ! 1 \<and>
            Division r \<in> set (division sb) \<and>
            (product_search sb \<noteq> [] \<longrightarrow>
               (\<exists>found. re (product_search sb) = Some found \<and> found (Product_Name r)))) \<and>
         subseq out df \<and>
         apply_filters re sb out = Inr out"
proof -
  from assms have len: "2 \<le> length (date_range sb)"
    by (auto simp add: apply_filters_def getitem_def split: if_splits)
  then have g: "getitem (date_range sb) 0 = Inr (date_range sb ! 0)"
    "getitem (date_range sb) 1 = Inr (date_range sb ! 1)"
    by (auto simp add: getitem_def)
  show ?thesis
  proof (cases "product_search sb = []")
    case True
    with assms g have out: "out = filter (\<lambda>r. Division r \<in> set (division sb))
        (filter (\<lambda>r. date_range sb ! 0 \<le> Date r \<and> Date r \<le> date_range sb ! 1) df)"
      by (simp add: apply_filters_def)
    have "apply_filters re sb out = Inr out"
      using True g by (auto simp add: apply_filters_def out intro!: filter_cong)
    moreover have "subseq out df"
      unfolding out by (meson subseq_filter_left subseq_order.order_trans)
    ultimately show ?thesis using len True out by auto
  next
    case False
    with assms g obtain found where f: "re (product_search sb) = Some found"
      by (auto simp add: apply_filters_def split: option.splits)
    with assms g False have out: "out = filter (\<lambda>r. found (Product_Name r))
       (filter (\<lambda>r. Division r \<in> set (division sb))
        (filter (\<lambda>r. date_range sb ! 0 \<le> Date r \<and> Date r \<le> date_range sb ! 1) df))"
      by (simp add: apply_filters_def)
    have "apply_filters re sb out = Inr out"
      using False g f by (auto simp add: apply_filters_def out intro!: filter_cong)
    moreover have "subseq out df"
      unfolding out by (meson subseq_filter_left subseq_order.order_trans)
    ultimately show ?thesis using len f out by auto
  qed
qed

theorem filter_sound_and_idempotent_witness:
  "apply_filters dot_engine dot_search [record_a] = Inr [record_a] \<and>
   subseq [record_a] [record_a] \<and>
   (\<exists>found. dot_engine ''.'' = Some found \<and> found ''ProductA'')"
  using filter_sound_and_idempotent [of dot_engine dot_search "[record_a]" "[record_a]"]
  by (simp add: dot_search_def record_a_def dot_engine_def special_def apply_filters_def
        getitem_def)

text \<open>
  The claim as the specification words it fails on a search text with a special character:
  the dot is found in "ProductA" as a regular expression, so the record passes the filter,
  yet "ProductA" has no dot in it.
\<close>

theorem filter_substring_counterexample:
  "apply_filters dot_engine dot_search [record_a] = Inr [record_a] \<and>
   product_search dot_search \<noteq> [] \<and>
   \<not> spec_substring_match (product_search dot_search) (Product_Name record_a)"
  by code_simp

section \<open>The top-20% share\<close>

lemma int_of_fifth_div: "int_of_fifth n = n div 5"
proof -
  have "real n * 0.2 = real n / 5" by simp
  then have "\<lfloor>real n * 0.2\<rfloor> = \<lfloor>real n / real 5\<rfloor>" by simp
  also have "\<dots> = int (n div 5)"
    by (simp only: floor_divide_of_nat_eq)
  finally show ?thesis by (simp add: int_of_fifth_def)
qed

lemma ceiling_fifth: "nat \<lceil>0.2 * real n\<rceil> = (n + 4) div 5"
proof -
  have "\<lceil>0.2 * real n\<rceil> = \<lceil>real n / real 5\<rceil>" by simp
  also have "\<dots> = - \<lfloor>- (real n / real 5)\<rfloor>" by (simp add: ceiling_def)
  finally have "\<lceil>0.2 * real n\<rceil> = - \<lfloor>real_of_int (- int n) / real_of_int 5\<rfloor>" by simp
  also have "\<dots> = - ((- int n) div 5)" by (simp only: floor_divide_of_int_eq)
  also have "\<dots> = int ((n + 4) div 5)" by linarith
  finally show ?thesis by simp
qed

lemma top_20_count_bounds:
  "0 < n \<Longrightarrow>
   1 \<le> top_20_count n \<and> top_20_count n \<le> n \<and> top_20_count n \<le> nat \<lceil>0.2 * real n\<rceil>"
  by (simp add: top_20_count_def int_of_fifth_div ceiling_fifth) linarith

lemma group_keys_nonempty: "rs \<noteq> [] \<Longrightarrow> group_keys key rs \<noteq> []"
  by (metis group_keys_set image_is_empty set_empty)

lemma length_profit_summary:
  "length (profit_summary fdf) = length (group_keys Product_Name fdf)"
  by (simp add: profit_summary_def sort_values_desc_def group_sum_def groupby_def)

lemma profit_summary_descending: "sorted_wrt (\<ge>) (map snd (profit_summary fdf))"
proof -
  have "sorted (map (\<lambda>x. - snd x) (profit_summary fdf))"
    by (simp add: profit_summary_def sort_values_desc_def)
  then show ?thesis
    by (simp add: sorted_wrt_map)
qed

lemma profit_summary_mset:
  "mset (profit_summary fdf) = mset (group_sum Product_Name Gross_Profit fdf)"
  by (simp add: profit_summary_def sort_values_desc_def)

lemma profit_summary_total:
  "sum_list (map snd (profit_summary fdf)) = sum_list (map Gross_Profit fdf)"
proof -
  have "mset (map snd (profit_summary fdf)) =
        mset (map snd (group_sum Product_Name Gross_Profit fdf))"
    by (simp add: profit_summary_mset)
  then have "sum_list (map snd (profit_summary fdf)) =
             sum_list (map snd (group_sum Product_Name Gross_Profit fdf))"
    by (metis sum_mset_sum_list)
  then show ?thesis by (simp add: group_sum_total)
qed

text \<open>
  Claim C1, as amended. For a non-empty derived record set with \<open>N\<close> products, the top-20%
  share of the insights is computed over the first \<open>max(1, floor(0.2 * N))\<close> entries of the
  ranking of the products by descending Gross Profit: at least one entry, and never more
  than \<open>ceil(0.2 * N)\<close>. The reported share is the combined Gross Profit of those entries
  as a percentage of the total Gross Profit.
\<close>

theorem top_share_over_truncated_fifth:
  assumes "fdf \<noteq> []"
  shows "let ps = map snd (profit_summary fdf); n = length ps; k = top_20_count n
         in 0 < n \<and> k = max 1 (n div 5) \<and> 1 \<le> k \<and> k \<le> n \<and> k \<le> nat \<lceil>0.2 * real n\<rceil> \<and>
            sorted_wrt (\<ge>) ps \<and>
            mset (profit_summary fdf) = mset (group_sum Product_Name Gross_Profit fdf) \<and>
            dependency_ratio fdf =
              fmul (fdiv (Fin (sum_list (take k ps))) (Fin (sum_list (map Gross_Profit fdf))))
                (Fin 100)"
proof -
  define ps where "ps = map snd (profit_summary fdf)"
  have n: "0 < length ps"
    using assms group_keys_nonempty [of fdf Product_Name]
    by (simp add: ps_def length_profit_summary)
  have k: "top_20_count (length ps) = max 1 (length ps div 5)"
    by (simp add: top_20_count_def int_of_fifth_div)
  have d: "dependency_ratio fdf =
      fmul (fdiv (Fin (sum_list (take (top_20_count (length ps)) ps)))
        (Fin (sum_list (map Gross_Profit fdf)))) (Fin 100)"
    by (simp only: dependency_ratio_def Let_def ps_def profit_summary_total)
  show ?thesis
    unfolding Let_def
    using n k d top_20_count_bounds [OF n] profit_summary_descending [of fdf]
      profit_summary_mset [of fdf]
    by (simp add: ps_def)
qed

theorem top_share_over_truncated_fifth_witness:
  "six_products \<noteq> [] \<and> length (profit_summary six_products) = 6 \<and> top_20_count 6 = 1 \<and>
   dependency_ratio six_products =
     fmul (fdiv (Fin (sum_list (take 1 (map snd (profit_summary six_products)))))
                (Fin (sum_list (map Gross_Profit six_products)))) (Fin 100)"
proof -
  have a: "six_products \<noteq> []" by (simp add: six_products_def kpi_calculations_def)
  have b: "length (profit_summary six_products) = 6" by code_simp
  have c: "top_20_count 6 = 1" by code_simp
  show ?thesis
    using a b c top_share_over_truncated_fifth [OF a] by (simp add: Let_def)
qed

text \<open>
  The claim as the specification words it fails for six products: the script takes one
  entry (the truncation of 1.2) where the specification takes two (its ceiling), and the
  two shares differ.
\<close>

theorem top_share_ceiling_counterexample:
  "length (profit_summary six_products) = 6 \<and>
   dependency_ratio six_products = Fin (200 / 7) \<and>
   spec_top_fraction_share 0.2 six_products = Fin (1100 / 21) \<and>
   dependency_ratio six_products \<noteq> spec_top_fraction_share 0.2 six_products"
  by code_simp

text \<open>The fourth tab takes no entry at all for fewer than five products: for the two
  products of the worked example its share is zero.\<close>

lemma tab4_share_of_two_products:
  "length (pareto (kpi_calculations 10 example_frame)) = 2 \<and>
   top_20_count_tab4 2 = 0 \<and>
   top_20_profit_share (kpi_calculations 10 example_frame) = Fin 0"
  by code_simp

section \<open>The Pareto table\<close>

lemma length_cumsum_from: "length (cumsum_from a xs) = length xs"
  by (induction xs arbitrary: a) simp_all

lemma last_cumsum_from_Cons: "last (cumsum_from a (x # xs)) = a + x + sum_list xs"
  by (induction xs arbitrary: a x) (simp_all add: add.assoc)

lemma last_cumsum_from: "xs \<noteq> [] \<Longrightarrow> last (cumsum_from a xs) = a + sum_list xs"
  by (cases xs) (simp_all only: last_cumsum_from_Cons sum_list.Cons add.assoc)

lemma cumsum_from_lower: "\<forall>x \<in> set xs. 0 \<le> x \<Longrightarrow> y \<in> set (cumsum_from a xs) \<Longrightarrow> a \<le> y"
proof (induction xs arbitrary: a)
  case Nil
  then show ?case by simp
next
  case (Cons x xs)
  from Cons.prems have x: "0 \<le> x" and rest: "\<forall>z \<in> set xs. 0 \<le> z" by simp_all
  from Cons.prems(2) consider "y = a + x" | "y \<in> set (cumsum_from (a + x) xs)" by auto
  then show ?case
  proof cases
    case 1
    with x show ?thesis by simp
  next
    case 2
    then have "a + x \<le> y" using Cons.IH [OF rest] by blast
    with x show ?thesis by simp
  qed
qed

lemma sorted_cumsum_from: "\<forall>x \<in> set xs. 0 \<le> x \<Longrightarrow> sorted (cumsum_from a xs)"
proof (induction xs arbitrary: a)
  case Nil
  then show ?case by simp
next
  case (Cons x xs)
  then show ?case
    using cumsum_from_lower [of xs _ "a + x"] by auto
qed

lemma pareto_column:
  assumes "sum_list (map Gross_Profit fdf) \<noteq> 0"
  shows "map Cumulative_Pct (pareto fdf) =
         map (\<lambda>c. Fin (c / sum_list (map Gross_Profit fdf) * 100))
           (cumsum (map snd (profit_summary fdf)))"
proof -
  let ?ps = "profit_summary fdf"
  let ?t = "sum_list (map Gross_Profit fdf)"
  have "map Cumulative_Pct (pareto fdf) =
        map (\<lambda>c. fmul (fdiv (Fin c) (Fin ?t)) (Fin 100)) (map snd (zip ?ps (cumsum (map snd ?ps))))"
    by (simp add: pareto_def Let_def profit_summary_total case_prod_unfold comp_def del: fdiv.simps fmul.simps)
  also have "map snd (zip ?ps (cumsum (map snd ?ps))) = cumsum (map snd ?ps)"
    by (simp add: cumsum_def length_cumsum_from)
  finally show ?thesis using assms by simp
qed

lemma non_decreasing_Fin: "non_decreasing (map Fin xs) = sorted xs"
  by (induction xs) (auto simp add: non_decreasing_def fle_def isnan_def)

lemma pareto_percentages_of_frame:
  assumes "sum_list (map Gross_Profit fdf) \<noteq> 0"
  shows "pareto fdf \<noteq> [] \<and>
         last (map Cumulative_Pct (pareto fdf)) = Fin 100 \<and>
         ((\<forall>x \<in> set (profit_summary fdf). 0 \<le> snd x) \<longrightarrow>
            non_decreasing (map Cumulative_Pct (pareto fdf)))"
proof -
  let ?ps = "map snd (profit_summary fdf)"
  let ?t = "sum_list (map Gross_Profit fdf)"
  have t: "sum_list ?ps = ?t" by (rule profit_summary_total)
  with assms have ne: "?ps \<noteq> []" by auto
  then have cne: "cumsum ?ps \<noteq> []"
    by (metis cumsum_def length_cumsum_from length_0_conv)
  have col: "map Cumulative_Pct (pareto fdf) = map (\<lambda>c. Fin (c / ?t * 100)) (cumsum ?ps)"
    using assms by (rule pareto_column)
  have "pareto fdf \<noteq> []"
    using col cne by (metis map_is_Nil_conv)
  moreover have "last (map Cumulative_Pct (pareto fdf)) = Fin 100"
    using cne ne assms t by (simp add: col last_map cumsum_def last_cumsum_from)
  moreover have "non_decreasing (map Cumulative_Pct (pareto fdf))"
    if pos: "\<forall>x \<in> set (profit_summary fdf). 0 \<le> snd x"
  proof -
    from pos have nn: "\<forall>x \<in> set ?ps. 0 \<le> x" by auto
    then have "0 \<le> sum_list ?ps" by (intro sum_list_nonneg) blast
    with assms t have tpos: "0 < ?t" by simp
    have "sorted (cumsum ?ps)"
      using nn by (simp add: cumsum_def sorted_cumsum_from)
    then have "sorted (map (\<lambda>c. c / ?t * 100) (cumsum ?ps))"
      using tpos by (simp add: sorted_map sorted_wrt_iff_nth_less divide_right_mono)
    then have "non_decreasing (map Fin (map (\<lambda>c. c / ?t * 100) (cumsum ?ps)))"
      by (simp only: non_decreasing_Fin)
    then show ?thesis by (simp add: col comp_def)
  qed
  ultimately show ?thesis by blast
qed

text \<open>The insights never fail on any frame: the guard keeps \<open>idxmax\<close> and \<open>idxmin\<close> away
  from the empty one.\<close>

lemma idxmin_returns: "xs \<noteq> [] \<Longrightarrow> \<exists>wp. idxmin xs = Inr wp"
  by (simp add: idxmin_def split: list.split)

lemma automated_insights_returns: "\<exists>ins. automated_insights fdf = Inr ins"
proof (cases "fdf = []")
  case True
  then show ?thesis by (simp add: automated_insights_def)
next
  case False
  then have keys: "group_keys Division fdf \<noteq> []" "group_keys Product_Name fdf \<noteq> []"
    by (simp_all add: group_keys_nonempty)
  then obtain x xs where "group_sum Division Gross_Profit fdf = x # xs"
    by (cases "group_sum Division Gross_Profit fdf") (simp_all add: group_sum_def groupby_def)
  then obtain bd where bd: "idxmax (group_sum Division Gross_Profit fdf) = Inr bd"
    by simp
  have "group_mean Product_Name Gross_Margin fdf \<noteq> []"
    using keys by (simp add: group_mean_def groupby_def)
  then obtain wp where wp: "idxmin (group_mean Product_Name Gross_Margin fdf) = Inr wp"
    using idxmin_returns by blast
  show ?thesis
    using False by (simp add: automated_insights_def bd wp)
qed

text \<open>The script reaches the fourth tab exactly when the filter returns and no row has a
  negative Gross Profit.\<close>

lemma run_reaches_tab4:
  assumes "apply_filters re sb df = Inr rs"
      and "\<not> list_ex (\<lambda>r. Gross_Profit r < 0) (kpi_calculations (margin_threshold sb) rs)"
  shows "\<exists>d. run re sb df = Inr d \<and>
             Filtered d = kpi_calculations (margin_threshold sb) rs \<and>
             Total_Profit d = total_profit rs \<and>
             Tab4 d = pareto (kpi_calculations (margin_threshold sb) rs)"
proof -
  obtain ins where "automated_insights (kpi_calculations (margin_threshold sb) rs) = Inr ins"
    using automated_insights_returns by blast
  then show ?thesis
    using assms by (simp add: run_def cost_diagnostics_def Let_def)
qed

lemma run_returned:
  assumes "run re sb df = Inr d"
  shows "\<exists>rs. apply_filters re sb df = Inr rs \<and>
              Filtered d = kpi_calculations (margin_threshold sb) rs \<and>
              Total_Profit d = total_profit rs \<and>
              Tab4 d = pareto (Filtered d) \<and>
              \<not> list_ex (\<lambda>r. Gross_Profit r < 0) (Filtered d)"
  using assms
  by (auto simp add: run_def cost_diagnostics_def Let_def split: sum.splits if_splits)

lemma profit_summary_nonneg:
  assumes "\<forall>r \<in> set fdf. 0 \<le> Gross_Profit r"
  shows "\<forall>x \<in> set (profit_summary fdf). 0 \<le> snd x"
proof
  fix x assume "x \<in> set (profit_summary fdf)"
  then have "x \<in> set (group_sum Product_Name Gross_Profit fdf)"
    by (simp add: profit_summary_def sort_values_desc_def)
  then obtain k where "snd x = sum_list (map Gross_Profit (filter (\<lambda>r. Product_Name r = k) fdf))"
    by (auto simp add: group_sum_def groupby_def)
  moreover have "0 \<le> sum_list (map Gross_Profit (filter (\<lambda>r. Product_Name r = k) fdf))"
    using assms by (intro sum_list_nonneg) auto
  ultimately show "0 \<le> snd x" by simp
qed

text \<open>
  Claim C4, as amended. Whenever the script reaches the Pareto table (the filter returns
  and the scatter plot of the third tab accepts every row, that is, no row has a negative
  Gross Profit) and Total Profit is nonzero, the Cumulative % column of the table is
  non-decreasing from its first to its last entry and its final value is 100.
\<close>

theorem pareto_nondecreasing_to_100:
  assumes "run re sb df = Inr d" and "Total_Profit d \<noteq> 0"
  shows "Tab4 d \<noteq> [] \<and>
         non_decreasing (map Cumulative_Pct (Tab4 d)) \<and>
         last (map Cumulative_Pct (Tab4 d)) = Fin 100"
proof -
  obtain rs where rs: "Filtered d = kpi_calculations (margin_threshold sb) rs"
      "Total_Profit d = total_profit rs" "Tab4 d = pareto (Filtered d)"
      "\<not> list_ex (\<lambda>r. Gross_Profit r < 0) (Filtered d)"
    using run_returned [OF assms(1)] by blast
  have total: "sum_list (map Gross_Profit (Filtered d)) \<noteq> 0"
    using assms(2) rs(1,2) by (simp add: kpi_profit total_profit_def)
  have "\<forall>r \<in> set (Filtered d). 0 \<le> Gross_Profit r"
    using rs(4) by (auto simp add: list_ex_iff not_less)
  then have "\<forall>x \<in> set (profit_summary (Filtered d)). 0 \<le> snd x"
    by (rule profit_summary_nonneg)
  then show ?thesis
    using pareto_percentages_of_frame [OF total] rs(3) by simp
qed

lemma six_sales_unfiltered: "apply_filters re no_filters six_sales = Inr six_sales"
  by (simp add: apply_filters_def getitem_def no_filters_def six_sales_def product_sale_def)

theorem pareto_nondecreasing_to_100_witness:
  "\<not> isl (run dot_engine no_filters six_sales) \<and>
   Total_Profit (projr (run dot_engine no_filters six_sales)) = 21 \<and>
   non_decreasing (map Cumulative_Pct (Tab4 (projr (run dot_engine no_filters six_sales)))) \<and>
   last (map Cumulative_Pct (Tab4 (projr (run dot_engine no_filters six_sales)))) = Fin 100"
proof -
  have thr: "margin_threshold no_filters = 10" by (simp add: no_filters_def)
  have "\<not> list_ex (\<lambda>r. Gross_Profit r < 0) (kpi_calculations 10 six_sales)"
    by code_simp
  then obtain d where d: "run dot_engine no_filters six_sales = Inr d"
      "Total_Profit d = total_profit six_sales"
    using run_reaches_tab4 [OF six_sales_unfiltered, of dot_engine] by (auto simp add: thr)
  have "total_profit six_sales = 21" by code_simp
  with d(2) have t: "Total_Profit d = 21" by simp
  then have "Total_Profit d \<noteq> 0" by simp
  from pareto_nondecreasing_to_100 [OF d(1) this] t show ?thesis
    by (simp add: d(1))
qed

text \<open>
  The claim as the specification words it fails on a non-empty set whose profits add up to
  zero: for two products that break even the script reaches the Pareto table, and both
  cumulative percentages are zero divided by zero.
\<close>

lemma breakeven_unfiltered:
  "apply_filters re no_filters breakeven_sales = Inr breakeven_sales"
  by (simp add: apply_filters_def getitem_def no_filters_def breakeven_sales_def
        product_sale_def)

theorem pareto_breakeven_counterexample:
  "\<not> isl (run dot_engine no_filters breakeven_sales) \<and>
   length (Filtered (projr (run dot_engine no_filters breakeven_sales))) = 2 \<and>
   map Cumulative_Pct (Tab4 (projr (run dot_engine no_filters breakeven_sales))) = [NaN, NaN] \<and>
   \<not> non_decreasing
       (map Cumulative_Pct (Tab4 (projr (run dot_engine no_filters breakeven_sales)))) \<and>
   last (map Cumulative_Pct (Tab4 (projr (run dot_engine no_filters breakeven_sales))))
     \<noteq> Fin 100"
proof -
  have thr: "margin_threshold no_filters = 10" by (simp add: no_filters_def)
  have "\<not> list_ex (\<lambda>r. Gross_Profit r < 0) (kpi_calculations 10 breakeven_sales)"
    by code_simp
  then obtain d where d: "run dot_engine no_filters breakeven_sales = Inr d"
      "Filtered d = kpi_calculations 10 breakeven_sales"
      "Tab4 d = pareto (kpi_calculations 10 breakeven_sales)"
    using run_reaches_tab4 [OF breakeven_unfiltered, of dot_engine] by (auto simp add: thr)
  have col: "map Cumulative_Pct (pareto (kpi_calculations 10 breakeven_sales)) = [NaN, NaN]"
    by code_simp
  have len: "length (kpi_calculations 10 breakeven_sales) = 2"
    by (simp add: kpi_calculations_def breakeven_sales_def)
  show ?thesis
    by (simp add: d col len non_decreasing_def fle_def isnan_def)
qed

text \<open>A row with a loss stops the script at the scatter plot of the third tab.\<close>

lemma loss_stops_at_tab3: "run dot_engine no_filters loss_sales = Inl Size_Error"
proof -
  have f: "apply_filters dot_engine no_filters loss_sales = Inr loss_sales"
    by (simp add: apply_filters_def getitem_def no_filters_def loss_sales_def product_sale_def)
  have thr: "margin_threshold no_filters = 10" by (simp add: no_filters_def)
  have p: "cost_diagnostics (kpi_calculations 10 loss_sales) = Inl Size_Error"
    by code_simp
  obtain ins where "automated_insights (kpi_calculations 10 loss_sales) = Inr ins"
    using automated_insights_returns by blast
  then show ?thesis
    by (simp add: run_def f thr p)
qed

section \<open>Margin volatility\<close>

lemma std_short: "length vs < 2 \<Longrightarrow> std vs = NaN"
proof -
  assume "length vs < 2"
  moreover have "length (dropna vs) \<le> length vs" by (simp add: dropna_def)
  ultimately have "length (dropna vs) < 2" by simp
  then show ?thesis by (simp add: std_def Let_def)
qed

lemma volatility_table:
  "volatility fdf =
   map (\<lambda>k. (k, std (map Gross_Margin (filter (\<lambda>r. Product_Name r = k) fdf))))
     (group_keys Product_Name fdf)"
  by (simp add: volatility_def group_std_def groupby_def comp_def)

lemma merged_volatility_eq:
  "merged_volatility fdf k =
   (if k \<in> Product_Name ` set fdf
    then std (map Gross_Margin (filter (\<lambda>r. Product_Name r = k) fdf)) else NaN)"
  by (simp add: merged_volatility_def volatility_table map_of_map_restrict group_keys_set
        restrict_map_def)

lemma dropna_without:
  "g p = NaN \<Longrightarrow> dropna (map g (filter (\<lambda>k. k \<noteq> p) ks)) = dropna (map g ks)"
  by (induction ks) (simp_all add: dropna_def isnan_def)

lemma median_dropna: "dropna vs = dropna ws \<Longrightarrow> median vs = median ws"
  by (simp add: median_def)

lemma product_summary_rows:
  "product_summary fdf =
   map (\<lambda>k. \<lparr>Product = k,
            Product_Sales = sum_list (map Sales (filter (\<lambda>r. Product_Name r = k) fdf)),
            Product_Profit = sum_list (map Gross_Profit (filter (\<lambda>r. Product_Name r = k) fdf)),
            Product_Margin = mean (map Gross_Margin (filter (\<lambda>r. Product_Name r = k) fdf)),
            Product_Contribution =
              fmul (fdiv (Fin (sum_list (map Gross_Profit (filter (\<lambda>r. Product_Name r = k) fdf))))
                         (Fin (sum_list (map Gross_Profit fdf)))) (Fin 100),
            Margin_Volatility = merged_volatility fdf k,
            Volatility_Risk = volatility_label (median_vol fdf) (merged_volatility fdf k)\<rparr>)
     (group_keys Product_Name fdf)"
  by (simp add: product_summary_def groupby_def comp_def Let_def group_sum_total
        del: fdiv.simps fmul.simps)

text \<open>
  Claim C8. When a product has exactly one record, its Margin Volatility is the undefined
  value (not-a-number); the median volatility is the median over the other products, as if
  that product were absent (its entry is left out, not counted as zero), and it is a value,
  not an error; every row of the product summary is labelled "High Volatility" exactly when
  its volatility exceeds that median.
\<close>

theorem single_record_volatility:
  assumes "length (filter (\<lambda>r. Product_Name r = p) fdf) = 1"
  shows "merged_volatility fdf p = NaN \<and>
         median_vol fdf =
           median (map (merged_volatility fdf)
                     (filter (\<lambda>k. k \<noteq> p) (group_keys Product_Name fdf))) \<and>
         (\<forall>row \<in> set (product_summary fdf).
            Margin_Volatility row = merged_volatility fdf (Product row) \<and>
            (Product row = p \<longrightarrow> Margin_Volatility row = NaN) \<and>
            (Volatility_Risk row = High_Volatility \<longleftrightarrow>
               fgt (Margin_Volatility row) (median_vol fdf)))"
proof -
  have "std (map Gross_Margin (filter (\<lambda>r. Product_Name r = p) fdf)) = NaN"
    using assms by (simp add: std_short)
  then have nan: "merged_volatility fdf p = NaN"
    by (simp add: merged_volatility_eq)
  have med: "median_vol fdf =
      median (map (merged_volatility fdf) (filter (\<lambda>k. k \<noteq> p) (group_keys Product_Name fdf)))"
    unfolding median_vol_def
    by (rule median_dropna)
      (simp add: dropna_without [of "merged_volatility fdf" p, OF nan])
  have rows: "\<forall>row \<in> set (product_summary fdf).
            Margin_Volatility row = merged_volatility fdf (Product row) \<and>
            (Product row = p \<longrightarrow> Margin_Volatility row = NaN) \<and>
            (Volatility_Risk row = High_Volatility \<longleftrightarrow>
               fgt (Margin_Volatility row) (median_vol fdf))"
    using nan by (auto simp add: product_summary_rows volatility_label_def)
  from nan med rows show ?thesis by blast
qed

lemma example_product_keys:
  "group_keys Product_Name example_derived = [''ProductA'', ''ProductB'']"
  by code_simp

theorem single_record_volatility_witness:
  "length (filter (\<lambda>r. Product_Name r = ''ProductB'') example_derived) = 1 \<and>
   merged_volatility example_derived ''ProductB'' = NaN \<and>
   median_vol example_derived = median [merged_volatility example_derived ''ProductA'']"
proof -
  have h: "length (filter (\<lambda>r. Product_Name r = ''ProductB'') example_derived) = 1"
    by code_simp
  show ?thesis
    using h single_record_volatility [OF h] by (simp add: example_product_keys)
qed

text \<open>In the worked example ProductA has the margins 40 and 0 and ProductB a single
  record: the median volatility is the volatility of ProductA, the square root of 800, and
  not the mean of it and zero.\<close>

lemma example_margins_a:
  "map Gross_Margin (filter (\<lambda>r. Product_Name r = ''ProductA'') example_derived) =
   [Fin 40, Fin 0]"
  by code_simp

lemma example_product_names:
  "Product_Name ` set example_derived = {''ProductA'', ''ProductB''}"
  using group_keys_set [of Product_Name example_derived] by (simp add: example_product_keys)

lemma std_pair:
  "std [Fin a, Fin b] = Fin (sqrt ((a - (a + b) / 2)\<^sup>2 + (b - (a + b) / 2)\<^sup>2))"
  by (simp add: std_def dropna_def isnan_def isfinite_def finite_vals_def Let_def)

lemma example_volatility_a: "merged_volatility example_derived ''ProductA'' = Fin (sqrt 800)"
  by (simp add: merged_volatility_eq example_product_names example_margins_a std_pair)

lemma example_median_vol: "median_vol example_derived = Fin (sqrt 800)"
proof -
  have "length (filter (\<lambda>r. Product_Name r = ''ProductB'') example_derived) < 2"
    by code_simp
  then have "merged_volatility example_derived ''ProductB'' = NaN"
    by (simp add: merged_volatility_eq std_short)
  then show ?thesis
    by (simp add: median_vol_def example_product_keys example_volatility_a median_def dropna_def
          isnan_def sort_fval_def)
qed

section \<open>The worked example\<close>

lemma product_profit_table:
  "map (\<lambda>row. (Product row, Product_Profit row)) (product_summary fdf) =
   group_sum Product_Name Gross_Profit fdf"
  by (simp add: product_summary_def group_sum_def comp_def case_prod_unfold Let_def)

lemma example_unfiltered: "apply_filters re no_filters example_frame = Inr example_frame"
  by (simp add: apply_filters_def getitem_def no_filters_def example_frame_def
        record_a_def record_b_def record_c_def)

lemma example_division_profit:
  "group_sum Division Gross_Profit example_derived = [(''DivX'', 190), (''DivY'', 0)]"
  by code_simp

lemma example_product_profit:
  "group_sum Product_Name Gross_Profit example_derived =
   [(''ProductA'', 40), (''ProductB'', 150)]"
  by code_simp

lemma example_product_margin:
  "group_mean Product_Name Gross_Margin example_derived =
   [(''ProductA'', Fin 20), (''ProductB'', Fin 75)]"
  by code_simp

lemma example_third_row:
  "Product_Name (example_derived ! 2) = ''ProductA'' \<and>
   Division (example_derived ! 2) = ''DivY'' \<and>
   Gross_Margin (example_derived ! 2) = Fin 0 \<and>
   Risk_Level (example_derived ! 2) = High_Risk"
  by code_simp

lemma example_insights:
  "\<exists>i. automated_insights example_derived = Inr (Insight_Text i) \<and>
       Best_Division i = ''DivX'' \<and> Worst_Margin_Product i = Some ''ProductA''"
proof -
  have ne: "example_derived \<noteq> []"
    by (simp add: example_derived_def kpi_calculations_def example_frame_def)
  have bd: "idxmax (group_sum Division Gross_Profit example_derived) = Inr ''DivX''"
    by (simp add: example_division_profit)
  have wp: "idxmin (group_mean Product_Name Gross_Margin example_derived) =
      Inr (Some ''ProductA'')"
    by (simp add: example_product_margin idxmin_def isnan_def)
  show ?thesis
    using ne by (simp add: automated_insights_def bd wp)
qed

text \<open>
  Claim C9. On the three records of the worked example, with the margin threshold 10% and
  no filter active, the script gives Total Sales 350 and Total Profit 190, the aggregate
  Gross Profit 40 for ProductA, the Risk Level "High Risk" for the ProductA record of DivY
  (the third record), and DivX as the best division.
\<close>

theorem worked_example:
  "\<exists>d i. run re no_filters example_frame = Inr d \<and>
         Total_Sales d = 350 \<and> Total_Profit d = 190 \<and>
         map_of (map (\<lambda>row. (Product row, Product_Profit row)) (Tab1 d)) ''ProductA'' = Some 40 \<and>
         Product_Name (Filtered d ! 2) = ''ProductA'' \<and> Division (Filtered d ! 2) = ''DivY'' \<and>
         Risk_Level (Filtered d ! 2) = High_Risk \<and>
         Insights d = Insight_Text i \<and> Best_Division i = ''DivX''"
proof -
  obtain i where i: "automated_insights example_derived = Inr (Insight_Text i)"
    "Best_Division i = ''DivX''"
    using example_insights by blast
  have thr: "margin_threshold no_filters = 10" by (simp add: no_filters_def)
  have plot: "cost_diagnostics example_derived = Inr ()" by code_simp
  have "run re no_filters example_frame =
        Inr \<lparr>Filtered = example_derived,
             Total_Sales = total_sales example_frame,
             Total_Profit = total_profit example_frame,
             Average_Margin = mean (map Gross_Margin example_derived),
             Insights = Insight_Text i,
             Tab1 = product_summary example_derived,
             Tab2 = division_summary example_derived,
             Tab4 = pareto example_derived,
             Tab4_Share = top_20_profit_share example_derived\<rparr>"
    by (simp add: run_def example_unfiltered thr i(1) plot flip: example_derived_def)
  then show ?thesis
    using i(2) example_third_row
    by (simp add: example_totals product_profit_table example_product_profit)
qed

theorem worked_example_witness:
  "\<exists>d i. run dot_engine no_filters example_frame = Inr d \<and>
         Total_Sales d = 350 \<and> Total_Profit d = 190 \<and>
         Risk_Level (Filtered d ! 2) = High_Risk \<and>
         Insights d = Insight_Text i \<and> Best_Division i = ''DivX''"
  using worked_example [of dot_engine] by blast

end
